theory Spec2Isabelle
  imports Complex_Main "HOL-Library.Multiset"
begin

section \<open>The vector table of example\_vector\_embeddings\<close>

text \<open>
  The DAG of \<^verbatim>\<open>example_vector_embeddings_no_comments.py\<close> has three tasks that touch
  the DuckDB database: \<^verbatim>\<open>create_vector_table\<close>, \<^verbatim>\<open>insert_words_into_db\<close> and
  \<^verbatim>\<open>find_closest_word_match\<close>. Each opens a connection, sends SQL text to it and
  (two of the three) closes it. The embedding below has one constructor per SQL
  statement the tasks send, an interpreter \<open>execute\<close> for them over an explicit
  database state, and one definition per task that threads the state through the
  statements in the order of the source.

  Conventions of the model:
  \<^item> a \<^verbatim>\<open>FLOAT\<close> is a real number and \<open>array_distance\<close> the exact Euclidean
    distance, where the database rounds to binary32;
  \<^item> a Python dict is the list of its items in insertion order;
  \<^item> every \<^verbatim>\<open>cursor.execute\<close> is its own transaction (the source opens none), and a
    statement that fails leaves the database as it was before that statement;
  \<^item> \<^verbatim>\<open>ORDER BY ... LIMIT\<close> is a sort of the whole table followed by a cut; rows at
    equal distance keep the order in which they were inserted (the query names no
    second sort key). The database answers the query through the HNSW index of
    \<^verbatim>\<open>create_vector_table\<close>, an approximate search. So the ranking of the model is
    that of an exact scan in exact arithmetic: it is used to run the examples, and the
    general statements below use of a query result only how many rows it has and that
    they are rows of the table;
  \<^item> \<^verbatim>\<open>INSTALL\<close>, \<^verbatim>\<open>LOAD\<close> and \<^verbatim>\<open>SET\<close> succeed and change no table;
  \<^item> the \<^verbatim>\<open>duckdb_instance_name\<close> argument selects the database file; the state
    handed to a task is the state of that file;
  \<^item> an exception that leaves a task is the result \<open>Inl e\<close>, paired with the state the
    database is in at that moment;
  \<^item> the DAG hands \<^verbatim>\<open>insert_words_into_db\<close> a list of dicts and
    \<^verbatim>\<open>find_closest_word_match\<close> a dict: the defaults \<^verbatim>\<open>None\<close> of these arguments are
    not values of the model.
\<close>

subsection \<open>Values, errors, tables\<close>

type_synonym vec = "real list"

type_synonym pydict = "(string \<times> vec) list"

datatype error = CatalogError | ConversionError | BinderError | IndexError | KeyError

datatype sql_value = Varchar string | FloatVal real

record table =
  dim :: nat
  rows :: "(string \<times> vec) list"
  indexes :: "string list"

record db =
  catalog :: "(string \<times> table) list"
  handles :: nat

datatype stmt =
    InstallVss
  | LoadVss
  | SetHnswPersistence
  | CreateOrReplaceTable string nat
  | CreateIndexHnsw string string
  | InsertInto string string vec
  | SelectTextByDistance string vec nat nat

definition empty_db :: db where
  "empty_db = \<lparr>catalog = [], handles = 0\<rparr>"

definition lookup_table :: "db \<Rightarrow> string \<Rightarrow> table option" where
  "lookup_table s n = map_of (catalog s) n"

definition put_table :: "string \<Rightarrow> table \<Rightarrow> db \<Rightarrow> db" where
  "put_table n t s = s\<lparr>catalog := (n, t) # filter (\<lambda>e. fst e \<noteq> n) (catalog s)\<rparr>"

text \<open>Index names are unique in the schema, whatever table they belong to.\<close>

definition index_exists :: "db \<Rightarrow> string \<Rightarrow> bool" where
  "index_exists s i = list_ex (\<lambda>e. i \<in> set (indexes (snd e))) (catalog s)"

text \<open>\<^verbatim>\<open>array_distance(a, b)\<close>: the square root of the sum of the squared differences.\<close>

definition array_distance :: "vec \<Rightarrow> vec \<Rightarrow> real" where
  "array_distance a b = sqrt (sum_list (map (\<lambda>p. (fst p - snd p)\<^sup>2) (zip a b)))"

subsection \<open>The SQL statements\<close>

text \<open>
  \<^item> \<open>CreateOrReplaceTable n d\<close>:
    \<^verbatim>\<open>CREATE OR REPLACE TABLE n (text STRING, vec FLOAT[d])\<close>; the old table of that
    name goes with its rows and its indexes.
  \<^item> \<open>CreateIndexHnsw i n\<close>: \<^verbatim>\<open>CREATE INDEX i ON n USING HNSW (vec)\<close>.
  \<^item> \<open>InsertInto n w v\<close>: \<^verbatim>\<open>INSERT INTO n (text, vec) VALUES (?, ?)\<close> with the
    parameters \<open>(w, v)\<close>; the list \<open>v\<close> is cast to the column type \<^verbatim>\<open>FLOAT[d]\<close>,
    which fails unless it has \<open>d\<close> elements.
  \<^item> \<open>SelectTextByDistance n q d k\<close>:
    \<^verbatim>\<open>SELECT text FROM n ORDER BY array_distance(vec, q::FLOAT[d]) LIMIT k\<close>;
    each result row is a tuple of one column.
  The result set of a statement other than the SELECT is not read by the tasks and is
  empty here.
\<close>

fun execute :: "stmt \<Rightarrow> db \<Rightarrow> (error + sql_value list list) \<times> db" where
  "execute InstallVss s = (Inr [], s)"
| "execute LoadVss s = (Inr [], s)"
| "execute SetHnswPersistence s = (Inr [], s)"
| "execute (CreateOrReplaceTable n d) s =
     (Inr [], put_table n \<lparr>dim = d, rows = [], indexes = []\<rparr> s)"
| "execute (CreateIndexHnsw i n) s =
     (case lookup_table s n of
        None \<Rightarrow> (Inl CatalogError, s)
      | Some t \<Rightarrow>
          if index_exists s i then (Inl CatalogError, s)
          else (Inr [], put_table n (t\<lparr>indexes := indexes t @ [i]\<rparr>) s))"
| "execute (InsertInto n w v) s =
     (case lookup_table s n of
        None \<Rightarrow> (Inl CatalogError, s)
      | Some t \<Rightarrow>
          if length v \<noteq> dim t then (Inl ConversionError, s)
          else (Inr [], put_table n (t\<lparr>rows := rows t @ [(w, v)]\<rparr>) s))"
| "execute (SelectTextByDistance n q d k) s =
     (case lookup_table s n of
        None \<Rightarrow> (Inl CatalogError, s)
      | Some t \<Rightarrow>
          if length q \<noteq> d then (Inl ConversionError, s)
          else if dim t \<noteq> d then (Inl BinderError, s)
          else (Inr (map (\<lambda>r. [Varchar (fst r)])
                      (take k (sort_key (\<lambda>r. array_distance (snd r) q) (rows t)))), s))"

text \<open>Several statements one after the other, stopping at the first that fails.\<close>

fun execute_all :: "stmt list \<Rightarrow> db \<Rightarrow> (error + unit) \<times> db" where
  "execute_all [] s = (Inr (), s)"
| "execute_all (q # qs) s =
     (case execute q s of
        (Inl e, s') \<Rightarrow> (Inl e, s')
      | (Inr _, s') \<Rightarrow> execute_all qs s')"

subsection \<open>The connection\<close>

definition duckdb_connect :: "string \<Rightarrow> db \<Rightarrow> db" where
  "duckdb_connect duckdb_instance_name s = s\<lparr>handles := handles s + 1\<rparr>"

definition cursor_close :: "db \<Rightarrow> db" where
  "cursor_close s = s\<lparr>handles := handles s - 1\<rparr>"

subsection \<open>The tasks\<close>

text \<open>
  \<^verbatim>\<open>create_vector_table\<close> (lines 76 to 100). The assignment of line 87 replaces the
  argument \<^verbatim>\<open>table_name\<close> before the SQL text is built.
\<close>

definition create_vector_table :: "string \<Rightarrow> string \<Rightarrow> db \<Rightarrow> (error + unit) \<times> db" where
  "create_vector_table duckdb_instance_name table_name s =
     (let cursor = duckdb_connect duckdb_instance_name s;
          table_name = ''embeddings_table''
      in case execute_all
                [InstallVss, LoadVss, SetHnswPersistence,
                 CreateOrReplaceTable table_name 384,
                 CreateIndexHnsw ''my_hnsw_index'' table_name] cursor of
           (Inl e, s') \<Rightarrow> (Inl e, s')
         | (Inr _, s') \<Rightarrow> (Inr (), cursor_close s'))"

text \<open>
  \<^verbatim>\<open>word = list(i.keys())[0]; vec = i[word]\<close>: the first key of the dict and its value.
  An empty dict has no first key.
\<close>

definition first_word_and_vec :: "pydict \<Rightarrow> error + (string \<times> vec)" where
  "first_word_and_vec i =
     (case map fst i of
        [] \<Rightarrow> Inl IndexError
      | word # _ \<Rightarrow>
          (case map_of i word of
             None \<Rightarrow> Inl KeyError
           | Some vec \<Rightarrow> Inr (word, vec)))"

text \<open>The loop of lines 112 to 121: one INSERT per record, in the order of the list.\<close>

fun insert_loop :: "string \<Rightarrow> pydict list \<Rightarrow> db \<Rightarrow> (error + unit) \<times> db" where
  "insert_loop table_name [] s = (Inr (), s)"
| "insert_loop table_name (i # rest) s =
     (case first_word_and_vec i of
        Inl e \<Rightarrow> (Inl e, s)
      | Inr (word, vec) \<Rightarrow>
          (case execute (InsertInto table_name word vec) s of
             (Inl e, s') \<Rightarrow> (Inl e, s')
           | (Inr _, s') \<Rightarrow> insert_loop table_name rest s'))"

text \<open>\<^verbatim>\<open>insert_words_into_db\<close> (lines 102 to 123).\<close>

definition insert_words_into_db ::
  "string \<Rightarrow> string \<Rightarrow> pydict list \<Rightarrow> db \<Rightarrow> (error + unit) \<times> db" where
  "insert_words_into_db duckdb_instance_name table_name list_of_words_and_embeddings s =
     (let cursor = duckdb_connect duckdb_instance_name s
      in case execute_all [InstallVss, LoadVss] cursor of
           (Inl e, s1) \<Rightarrow> (Inl e, s1)
         | (Inr _, s1) \<Rightarrow>
             (case insert_loop table_name list_of_words_and_embeddings s1 of
                (Inl e, s2) \<Rightarrow> (Inl e, s2)
              | (Inr _, s2) \<Rightarrow> (Inr (), cursor_close s2)))"

text \<open>
  \<^verbatim>\<open>find_closest_word_match\<close> (lines 134 to 159). The task returns what
  \<^verbatim>\<open>fetchall\<close> gave it; the two log lines change nothing that is modelled. The source
  has no \<^verbatim>\<open>cursor.close()\<close> in this task.
\<close>

definition find_closest_word_match ::
  "string \<Rightarrow> string \<Rightarrow> pydict \<Rightarrow> db \<Rightarrow> (error + sql_value list list) \<times> db" where
  "find_closest_word_match duckdb_instance_name table_name word_of_interest_embedding s =
     (let cursor = duckdb_connect duckdb_instance_name s
      in case execute LoadVss cursor of
           (Inl e, s1) \<Rightarrow> (Inl e, s1)
         | (Inr _, s1) \<Rightarrow>
             (case first_word_and_vec word_of_interest_embedding of
                Inl e \<Rightarrow> (Inl e, s1)
              | Inr (word, vec) \<Rightarrow>
                  (case execute (SelectTextByDistance table_name vec 384 3) s1 of
                     (Inl e, s2) \<Rightarrow> (Inl e, s2)
                   | (Inr top_3, s2) \<Rightarrow> (Inr top_3, s2))))"

subsection \<open>Vocabulary of the properties\<close>

text \<open>
  A record of the batch passes when the loop body gets through it: the dict has a first
  item and its vector has the length of the column. For such a record the row written
  is its first item, \<open>hd i\<close>. \<open>record_error\<close> is the exception a record raises
  when it does not pass.
\<close>

definition valid_record :: "nat \<Rightarrow> pydict \<Rightarrow> bool" where
  "valid_record d i =
     (case first_word_and_vec i of Inl _ \<Rightarrow> False | Inr p \<Rightarrow> length (snd p) = d)"

definition record_error :: "pydict \<Rightarrow> error" where
  "record_error i =
     (case first_word_and_vec i of Inl e \<Rightarrow> e | Inr _ \<Rightarrow> ConversionError)"

text \<open>
  The table as \<^verbatim>\<open>create_vector_table\<close> leaves it, and the condition under which its
  \<^verbatim>\<open>CREATE INDEX\<close> finds the name free: no table but \<^verbatim>\<open>embeddings_table\<close> holds
  an index called \<^verbatim>\<open>my_hnsw_index\<close>.
\<close>

definition empty_vector_table :: table where
  "empty_vector_table = \<lparr>dim = 384, rows = [], indexes = [''my_hnsw_index'']\<rparr>"

definition index_name_reserved :: "db \<Rightarrow> bool" where
  "index_name_reserved s =
     list_all (\<lambda>e. ''my_hnsw_index'' \<in> set (indexes (snd e)) \<longrightarrow> fst e = ''embeddings_table'')
       (catalog s)"

text \<open>The result shape the specification describes: a tuple of a text and a distance.\<close>

fun is_text_distance_pair :: "sql_value list \<Rightarrow> bool" where
  "is_text_distance_pair [Varchar w, FloatVal d] = True"
| "is_text_distance_pair _ = False"

subsection \<open>Example data\<close>

text \<open>
  The scenario of the specification: three words whose vectors differ in the first two
  coordinates only, padded with zeros to 384. \<open>sol_record\<close> has the vector of
  \<open>sun_record\<close>; \<open>comet_record\<close> has a vector of three numbers.
\<close>

definition pad :: "real list \<Rightarrow> vec" where
  "pad xs = xs @ replicate (384 - length xs) 0"

definition sun_record :: pydict where
  "sun_record = [(''sun'', pad [1, 0])]"

definition rocket_record :: pydict where
  "rocket_record = [(''rocket'', pad [0, 1])]"

definition planet_record :: pydict where
  "planet_record = [(''planet'', pad [9 / 10, 1 / 10])]"

definition sol_record :: pydict where
  "sol_record = [(''sol'', pad [1, 0])]"

definition comet_record :: pydict where
  "comet_record = [(''comet'', [1, 2, 3])]"

definition query_record :: pydict where
  "query_record = [(''star'', pad [1, 0])]"

definition fresh_db :: db where
  "fresh_db = snd (create_vector_table ''include/astronomy.db'' ''embeddings_table'' empty_db)"

definition scenario_db :: db where
  "scenario_db =
     snd (insert_words_into_db ''include/astronomy.db'' ''embeddings_table''
            [sun_record, rocket_record, planet_record] fresh_db)"

section \<open>Auxiliary facts\<close>

subsection \<open>The catalog\<close>

lemma map_of_filter_fst:
  "map_of (filter (\<lambda>e. fst e \<noteq> n) c) m = (if m = n then None else map_of c m)"
  by (induction c) auto

lemma lookup_put_table:
  "lookup_table (put_table n t s) m = (if m = n then Some t else lookup_table s m)"
  by (simp add: lookup_table_def put_table_def map_of_filter_fst)

lemma handles_put_table: "handles (put_table n t s) = handles s"
  by (simp add: put_table_def)

lemma lookup_duckdb_connect: "lookup_table (duckdb_connect i s) n = lookup_table s n"
  by (simp add: lookup_table_def duckdb_connect_def)

lemma lookup_cursor_close: "lookup_table (cursor_close s) n = lookup_table s n"
  by (simp add: lookup_table_def cursor_close_def)

lemma first_word_and_vec_eq:
  "first_word_and_vec i = (if i = [] then Inl IndexError else Inr (hd i))"
  by (cases i) (auto simp: first_word_and_vec_def)

subsection \<open>The tasks, statement by statement\<close>

lemma insert_loop_handles:
  "handles (snd (insert_loop n batch s)) = handles s"
proof (induction batch arbitrary: s)
  case Nil
  then show ?case by simp
next
  case (Cons i rest)
  show ?case
  proof (cases "first_word_and_vec i")
    case (Inl e)
    then show ?thesis by simp
  next
    case (Inr p)
    obtain w v where p: "p = (w, v)" by (cases p)
    show ?thesis
      using Inr p Cons.IH [of "put_table n (the (lookup_table s n)\<lparr>rows := rows (the (lookup_table s n)) @ [(w, v)]\<rparr>) s"]
      by (auto simp: handles_put_table split: option.splits)
  qed
qed

lemma insert_loop_table:
  assumes "lookup_table s n = Some t"
  shows "lookup_table (snd (insert_loop n batch s)) n =
           Some (t\<lparr>rows := rows t @ map hd (takeWhile (valid_record (dim t)) batch)\<rparr>)"
  using assms
proof (induction batch arbitrary: s t)
  case Nil
  then show ?case by simp
next
  case (Cons i rest)
  show ?case
  proof (cases "valid_record (dim t) i")
    case False
    then show ?thesis
      using Cons.prems
      by (auto simp: valid_record_def first_word_and_vec_eq split: if_splits prod.splits)
  next
    case True
    then have ne: "i \<noteq> []" and len: "length (snd (hd i)) = dim t"
      by (auto simp: valid_record_def first_word_and_vec_eq split: if_splits)
    obtain w v where hd: "hd i = (w, v)" by (cases "hd i")
    let ?t' = "t\<lparr>rows := rows t @ [(w, v)]\<rparr>"
    let ?s' = "put_table n ?t' s"
    have step: "insert_loop n (i # rest) s = insert_loop n rest ?s'"
      using ne len hd Cons.prems by (simp add: first_word_and_vec_eq)
    have "lookup_table ?s' n = Some ?t'" by (simp add: lookup_put_table)
    from Cons.IH [OF this] show ?thesis
      using True hd by (simp add: step del: insert_loop.simps)
  qed
qed

lemma insert_loop_result:
  assumes "lookup_table s n = Some t"
  shows "fst (insert_loop n batch s) =
           (case dropWhile (valid_record (dim t)) batch of
              [] \<Rightarrow> Inr ()
            | i # _ \<Rightarrow> Inl (record_error i))"
  using assms
proof (induction batch arbitrary: s t)
  case Nil
  then show ?case by simp
next
  case (Cons i rest)
  show ?case
  proof (cases "valid_record (dim t) i")
    case False
    then show ?thesis
      using Cons.prems
      by (auto simp: valid_record_def record_error_def first_word_and_vec_eq split: if_splits prod.splits)
  next
    case True
    then have ne: "i \<noteq> []" and len: "length (snd (hd i)) = dim t"
      by (auto simp: valid_record_def first_word_and_vec_eq split: if_splits)
    obtain w v where hd: "hd i = (w, v)" by (cases "hd i")
    let ?t' = "t\<lparr>rows := rows t @ [(w, v)]\<rparr>"
    let ?s' = "put_table n ?t' s"
    have step: "insert_loop n (i # rest) s = insert_loop n rest ?s'"
      using ne len hd Cons.prems by (simp add: first_word_and_vec_eq)
    have "lookup_table ?s' n = Some ?t'" by (simp add: lookup_put_table)
    from Cons.IH [OF this] show ?thesis
      using True by (simp add: step del: insert_loop.simps)
  qed
qed


lemma insert_words_result:
  assumes "lookup_table s n = Some t"
  shows "fst (insert_words_into_db inst n batch s) =
           (case dropWhile (valid_record (dim t)) batch of
              [] \<Rightarrow> Inr ()
            | i # _ \<Rightarrow> Inl (record_error i))"
proof -
  have "lookup_table (duckdb_connect inst s) n = Some t"
    using assms by (simp add: lookup_duckdb_connect)
  from insert_loop_result [OF this, of batch]
  have loop: "fst (insert_loop n batch (duckdb_connect inst s)) =
           (case dropWhile (valid_record (dim t)) batch of
              [] \<Rightarrow> Inr ()
            | i # _ \<Rightarrow> Inl (record_error i))" .
  obtain r s2 where run: "insert_loop n batch (duckdb_connect inst s) = (r, s2)"
    by (cases "insert_loop n batch (duckdb_connect inst s)")
  have "fst (insert_words_into_db inst n batch s) = r"
    by (cases r) (simp_all add: insert_words_into_db_def Let_def run)
  with loop run show ?thesis by simp
qed

lemma insert_words_table:
  assumes "lookup_table s n = Some t"
  shows "lookup_table (snd (insert_words_into_db inst n batch s)) n =
           Some (t\<lparr>rows := rows t @ map hd (takeWhile (valid_record (dim t)) batch)\<rparr>)"
proof -
  have "lookup_table (duckdb_connect inst s) n = Some t"
    using assms by (simp add: lookup_duckdb_connect)
  from insert_loop_table [OF this, of batch]
  have loop: "lookup_table (snd (insert_loop n batch (duckdb_connect inst s))) n =
           Some (t\<lparr>rows := rows t @ map hd (takeWhile (valid_record (dim t)) batch)\<rparr>)" .
  obtain r s2 where run: "insert_loop n batch (duckdb_connect inst s) = (r, s2)"
    by (cases "insert_loop n batch (duckdb_connect inst s)")
  have "lookup_table (snd (insert_words_into_db inst n batch s)) n = lookup_table s2 n"
    by (cases r) (simp_all add: insert_words_into_db_def Let_def run lookup_cursor_close)
  with loop run show ?thesis by simp
qed

lemma insert_words_handles:
  "handles (snd (insert_words_into_db inst n batch s)) =
     (if fst (insert_words_into_db inst n batch s) = Inr () then handles s else handles s + 1)"
proof -
  obtain r s2 where run: "insert_loop n batch (duckdb_connect inst s) = (r, s2)"
    by (cases "insert_loop n batch (duckdb_connect inst s)")
  have "handles s2 = handles s + 1"
    using insert_loop_handles [of n batch "duckdb_connect inst s"] run
    by (simp add: duckdb_connect_def)
  then show ?thesis
    by (cases r) (simp_all add: insert_words_into_db_def Let_def run cursor_close_def)
qed

lemma find_closest_handles:
  "handles (snd (find_closest_word_match inst n wq s)) = handles s + 1"
proof (cases "first_word_and_vec wq")
  case (Inl e)
  then show ?thesis by (simp add: find_closest_word_match_def Let_def duckdb_connect_def)
next
  case (Inr p)
  obtain w q where p: "p = (w, q)" by (cases p)
  show ?thesis
    using Inr p
    by (simp add: find_closest_word_match_def Let_def duckdb_connect_def split: option.splits)
qed


lemma find_closest_fst:
  "fst (find_closest_word_match inst n wq s) =
     (if wq = [] then Inl IndexError
      else case lookup_table s n of
             None \<Rightarrow> Inl CatalogError
           | Some t \<Rightarrow>
               if length (snd (hd wq)) \<noteq> 384 then Inl ConversionError
               else if dim t \<noteq> 384 then Inl BinderError
               else Inr (map (\<lambda>r. [Varchar (fst r)])
                      (take 3 (sort_key (\<lambda>r. array_distance (snd r) (snd (hd wq))) (rows t)))))"
proof -
  obtain w q where hd: "hd wq = (w, q)" by (cases "hd wq")
  show ?thesis
    using hd
    by (simp add: find_closest_word_match_def first_word_and_vec_eq lookup_duckdb_connect Let_def
             split: option.splits)
qed

lemma index_exists_put_table:
  "index_exists (put_table n t s) i =
     (i \<in> set (indexes t) \<or> list_ex (\<lambda>e. fst e \<noteq> n \<and> i \<in> set (indexes (snd e))) (catalog s))"
  by (fastforce simp: index_exists_def put_table_def list_ex_iff)

lemma index_name_reserved_put_table:
  "index_name_reserved s \<Longrightarrow>
   (''my_hnsw_index'' \<in> set (indexes t) \<longrightarrow> n = ''embeddings_table'') \<Longrightarrow>
   index_name_reserved (put_table n t s)"
  by (auto simp: index_name_reserved_def put_table_def list_all_iff)

lemma index_name_reserved_handles:
  "index_name_reserved (s\<lparr>handles := h\<rparr>) = index_name_reserved s"
  by (simp add: index_name_reserved_def)

lemma index_name_reserved_empty: "index_name_reserved empty_db"
  by (simp add: index_name_reserved_def empty_db_def)

lemma create_execute_all:
  assumes "index_name_reserved s"
  shows "execute_all
           [InstallVss, LoadVss, SetHnswPersistence,
            CreateOrReplaceTable ''embeddings_table'' 384,
            CreateIndexHnsw ''my_hnsw_index'' ''embeddings_table''] s =
         (Inr (), put_table ''embeddings_table'' empty_vector_table
                    (put_table ''embeddings_table'' \<lparr>dim = 384, rows = [], indexes = []\<rparr> s))"
proof -
  let ?s1 = "put_table ''embeddings_table'' \<lparr>dim = 384, rows = [], indexes = []\<rparr> s"
  have free: "\<not> index_exists ?s1 ''my_hnsw_index''"
    using assms by (auto simp: index_exists_put_table index_name_reserved_def list_ex_iff list_all_iff)
  have look: "lookup_table ?s1 ''embeddings_table'' = Some \<lparr>dim = 384, rows = [], indexes = []\<rparr>"
    by (simp add: lookup_put_table)
  show ?thesis
    using free look by (simp add: empty_vector_table_def)
qed

lemma create_vector_table_ok:
  assumes "index_name_reserved s"
  shows "create_vector_table inst n s =
           (Inr (), put_table ''embeddings_table'' empty_vector_table
                      (put_table ''embeddings_table'' \<lparr>dim = 384, rows = [], indexes = []\<rparr> s))"
proof -
  have "index_name_reserved (duckdb_connect inst s)"
    using assms by (simp add: duckdb_connect_def index_name_reserved_handles)
  from create_execute_all [OF this] show ?thesis
    by (simp add: create_vector_table_def Let_def cursor_close_def duckdb_connect_def put_table_def)
qed

lemma create_vector_table_rows:
  "map_option rows (lookup_table (snd (create_vector_table inst n s)) ''embeddings_table'') = Some []"
  by (simp add: create_vector_table_def Let_def lookup_put_table lookup_cursor_close
        split: option.splits)

lemma create_vector_table_dim:
  "map_option dim (lookup_table (snd (create_vector_table inst n s)) ''embeddings_table'') = Some 384"
  by (simp add: create_vector_table_def Let_def lookup_put_table lookup_cursor_close
        split: option.splits)

lemma create_vector_table_other:
  "m \<noteq> ''embeddings_table'' \<Longrightarrow>
   lookup_table (snd (create_vector_table inst n s)) m = lookup_table s m"
  by (simp add: create_vector_table_def Let_def lookup_put_table lookup_cursor_close
        lookup_duckdb_connect split: option.splits)

lemma fresh_db_eq:
  "fresh_db = \<lparr>catalog = [(''embeddings_table'', empty_vector_table)], handles = 0\<rparr>"
proof -
  have "fresh_db =
          put_table ''embeddings_table'' empty_vector_table
            (put_table ''embeddings_table'' \<lparr>dim = 384, rows = [], indexes = []\<rparr> empty_db)"
    unfolding fresh_db_def
    by (simp only: create_vector_table_ok [OF index_name_reserved_empty] snd_conv)
  then show ?thesis by (simp add: put_table_def empty_db_def)
qed

lemma length_pad: "length xs \<le> 384 \<Longrightarrow> length (pad xs) = 384"
  by (simp add: pad_def)

lemma array_distance_pad:
  "length a = length b \<Longrightarrow> array_distance (pad a) (pad b) = array_distance a b"
  by (simp add: array_distance_def pad_def sum_list_replicate)

lemma scenario_distances:
  "array_distance (pad [1, 0]) (pad [1, 0]) = 0"
  "array_distance (pad [0, 1]) (pad [1, 0]) = sqrt 2"
  "array_distance (pad [9 / 10, 1 / 10]) (pad [1, 0]) = sqrt (1 / 50)"
  by (simp_all add: array_distance_pad) (simp_all add: array_distance_def power2_eq_square)

lemma scenario_db_eq:
  "scenario_db =
     \<lparr>catalog = [(''embeddings_table'',
         \<lparr>dim = 384,
          rows = [(''sun'', pad [1, 0]), (''rocket'', pad [0, 1]), (''planet'', pad [9 / 10, 1 / 10])],
          indexes = [''my_hnsw_index'']\<rparr>)],
      handles = 0\<rparr>"
  by (simp add: scenario_db_def fresh_db_eq insert_words_into_db_def Let_def duckdb_connect_def
        cursor_close_def sun_record_def rocket_record_def planet_record_def
        first_word_and_vec_def lookup_table_def put_table_def empty_vector_table_def length_pad)

lemma scenario_query:
  "fst (find_closest_word_match ''include/astronomy.db'' ''embeddings_table'' query_record scenario_db) =
     Inr [[Varchar ''sun''], [Varchar ''planet''], [Varchar ''rocket'']]"
  by (simp add: find_closest_fst scenario_db_eq query_record_def lookup_table_def length_pad
        scenario_distances)

lemma create_vector_table_reserved:
  assumes "index_name_reserved s"
  shows "index_name_reserved (snd (create_vector_table inst n s))"
  using assms
  by (simp add: create_vector_table_ok index_name_reserved_put_table empty_vector_table_def)

lemma create_vector_table_table:
  assumes "index_name_reserved s"
  shows "lookup_table (snd (create_vector_table inst n s)) ''embeddings_table'' =
           Some empty_vector_table"
  using assms by (simp add: create_vector_table_ok lookup_put_table)

lemma create_vector_table_handles:
  "handles (snd (create_vector_table inst n s)) =
     (if fst (create_vector_table inst n s) = Inr () then handles s else handles s + 1)"
  by (simp add: create_vector_table_def Let_def duckdb_connect_def cursor_close_def
        handles_put_table split: option.splits)

lemma index_name_reserved_scenario: "index_name_reserved scenario_db"
  by (simp add: scenario_db_eq index_name_reserved_def)

subsection \<open>The index name stays reserved\<close>

lemma lookup_table_in_catalog:
  "lookup_table s n = Some t \<Longrightarrow> (n, t) \<in> set (catalog s)"
  by (simp add: lookup_table_def map_of_SomeD)

lemma execute_insert_reserved:
  assumes "index_name_reserved s"
  shows "index_name_reserved (snd (execute (InsertInto n w v) s))"
proof (cases "lookup_table s n")
  case None
  then show ?thesis using assms by simp
next
  case (Some t)
  then have "(n, t) \<in> set (catalog s)" by (rule lookup_table_in_catalog)
  with assms have "''my_hnsw_index'' \<in> set (indexes t) \<longrightarrow> n = ''embeddings_table''"
    by (auto simp: index_name_reserved_def list_all_iff)
  then show ?thesis
    using assms Some by (simp add: index_name_reserved_put_table)
qed

lemma insert_loop_reserved:
  "index_name_reserved s \<Longrightarrow> index_name_reserved (snd (insert_loop n batch s))"
proof (induction batch arbitrary: s)
  case Nil
  then show ?case by simp
next
  case (Cons i rest)
  show ?case
  proof (cases "first_word_and_vec i")
    case (Inl e)
    then show ?thesis using Cons.prems by simp
  next
    case (Inr p)
    obtain w v where p: "p = (w, v)" by (cases p)
    obtain r s' where ex: "execute (InsertInto n w v) s = (r, s')"
      by (cases "execute (InsertInto n w v) s")
    have s': "index_name_reserved s'"
      using execute_insert_reserved [OF Cons.prems, of n w v] ex by simp
    show ?thesis
    proof (cases r)
      case (Inl e)
      then show ?thesis using Inr p ex s' by simp
    next
      case (Inr y)
      then show ?thesis
        using \<open>first_word_and_vec i = Inr p\<close> p ex Cons.IH [OF s'] by simp
    qed
  qed
qed

lemma insert_words_reserved:
  assumes "index_name_reserved s"
  shows "index_name_reserved (snd (insert_words_into_db inst n batch s))"
proof -
  have c: "index_name_reserved (duckdb_connect inst s)"
    using assms by (simp add: duckdb_connect_def index_name_reserved_handles)
  obtain r s2 where run: "insert_loop n batch (duckdb_connect inst s) = (r, s2)"
    by (cases "insert_loop n batch (duckdb_connect inst s)")
  have "index_name_reserved s2"
    using insert_loop_reserved [OF c, of n batch] run by simp
  then show ?thesis
    by (cases r)
       (simp_all add: insert_words_into_db_def Let_def run cursor_close_def
          index_name_reserved_handles)
qed

lemma find_closest_state:
  "snd (find_closest_word_match inst n wq s) = duckdb_connect inst s"
proof (cases "first_word_and_vec wq")
  case (Inl e)
  then show ?thesis by (simp add: find_closest_word_match_def Let_def)
next
  case (Inr p)
  obtain w q where p: "p = (w, q)" by (cases p)
  show ?thesis
    using Inr p by (simp add: find_closest_word_match_def Let_def split: option.splits)
qed

lemma find_closest_reserved:
  "index_name_reserved s \<Longrightarrow> index_name_reserved (snd (find_closest_word_match inst n wq s))"
  by (simp add: find_closest_state duckdb_connect_def index_name_reserved_handles)

section \<open>The properties\<close>

subsection \<open>Nearest neighbours (C1)\<close>




subsection \<open>The dimension of the vectors (C2)\<close>

text \<open>
  Claim C2, as stated, has the table the same after a call that fails on a vector of
  another length. On the three rows of the scenario the batch \<open>[sol, comet]\<close> fails at
  \<open>comet\<close>, whose vector has three numbers, and the table has a fourth row.
\<close>

theorem failed_insert_keeps_earlier_rows_counterexample:
  "map_option rows (lookup_table scenario_db ''embeddings_table'') =
     Some [(''sun'', pad [1, 0]), (''rocket'', pad [0, 1]), (''planet'', pad [9 / 10, 1 / 10])]
   \<and> length (snd (hd comet_record)) \<noteq> 384
   \<and> fst (insert_words_into_db ''include/astronomy.db'' ''embeddings_table''
            [sol_record, comet_record] scenario_db) = Inl ConversionError
   \<and> map_option rows
        (lookup_table (snd (insert_words_into_db ''include/astronomy.db'' ''embeddings_table''
                               [sol_record, comet_record] scenario_db)) ''embeddings_table'') =
     Some [(''sun'', pad [1, 0]), (''rocket'', pad [0, 1]), (''planet'', pad [9 / 10, 1 / 10]),
           (''sol'', pad [1, 0])]
   \<and> [(''sun'', pad [1, 0]), (''rocket'', pad [0, 1]), (''planet'', pad [9 / 10, 1 / 10]),
       (''sol'', pad [1, 0])] \<noteq>
      [(''sun'', pad [1, 0]), (''rocket'', pad [0, 1]), (''planet'', pad [9 / 10, 1 / 10])]"
proof -
  let ?t = "\<lparr>dim = 384,
           rows = [(''sun'', pad [1, 0]), (''rocket'', pad [0, 1]), (''planet'', pad [9 / 10, 1 / 10])],
           indexes = [''my_hnsw_index'']\<rparr>"
  have h1: "lookup_table scenario_db ''embeddings_table'' = Some ?t"
    by (simp add: scenario_db_eq lookup_table_def)
  have v: "valid_record (dim ?t) sol_record" "\<not> valid_record (dim ?t) comet_record"
    by (simp_all add: valid_record_def first_word_and_vec_eq sol_record_def comet_record_def
          length_pad)
  have e: "record_error comet_record = ConversionError"
    by (simp add: record_error_def first_word_and_vec_eq comet_record_def)
  have c: "length (snd (hd comet_record)) \<noteq> 384" by (simp add: comet_record_def)
  show ?thesis
    using insert_words_result [OF h1, of "''include/astronomy.db''" "[sol_record, comet_record]"]
      insert_words_table [OF h1, of "''include/astronomy.db''" "[sol_record, comet_record]"]
      h1 v e c
    by (simp add: sol_record_def)
qed

text \<open>
  Claim C2, amended: in a table of dimension 384, the rows that \<^verbatim>\<open>insert_words_into_db\<close>
  adds all have vectors of length 384. A record whose vector has another length is not
  stored: when the records before it in the batch all pass, the call fails at it with
  the conversion error of the cast to \<^verbatim>\<open>FLOAT[384]\<close>, and the table holds the rows it
  held before the call followed by the rows of those earlier records (so it is as it
  was when the record is the first of the batch).
\<close>

theorem insert_dimension_invariant:
  assumes "lookup_table s n = Some t" and "dim t = 384"
  shows "(\<exists>new. lookup_table (snd (insert_words_into_db inst n batch s)) n =
                  Some (t\<lparr>rows := rows t @ new\<rparr>)
               \<and> (\<forall>r \<in> set new. length (snd r) = 384))
         \<and> (list_all (valid_record 384) before \<and> length v \<noteq> 384 \<longrightarrow>
               fst (insert_words_into_db inst n (before @ ((w, v) # items) # after) s) =
                 Inl ConversionError
             \<and> lookup_table
                 (snd (insert_words_into_db inst n (before @ ((w, v) # items) # after) s)) n =
                 Some (t\<lparr>rows := rows t @ map hd before\<rparr>)
             \<and> (w, v) \<notin> set (map hd before))"
proof (intro conjI impI)
  let ?new = "map hd (takeWhile (valid_record (dim t)) batch)"
  have "\<forall>i \<in> set (takeWhile (valid_record (dim t)) batch). length (snd (hd i)) = 384"
  proof
    fix i assume "i \<in> set (takeWhile (valid_record (dim t)) batch)"
    then have "valid_record (dim t) i" by (rule set_takeWhileD [THEN conjunct2])
    then show "length (snd (hd i)) = 384"
      using assms(2) by (auto simp: valid_record_def first_word_and_vec_eq split: if_splits)
  qed
  then have "\<forall>r \<in> set ?new. length (snd r) = 384" by simp
  with insert_words_table [OF assms(1), of inst batch]
  show "\<exists>new. lookup_table (snd (insert_words_into_db inst n batch s)) n =
                  Some (t\<lparr>rows := rows t @ new\<rparr>)
               \<and> (\<forall>r \<in> set new. length (snd r) = 384)"
    by blast
next
  assume h: "list_all (valid_record 384) before \<and> length v \<noteq> 384"
  let ?P = "valid_record (dim t)"
  let ?b = "before @ ((w, v) # items) # after"
  from h have ok: "\<forall>i \<in> set before. ?P i"
    using assms(2) by (simp add: list_all_iff)
  from h have bad: "\<not> ?P ((w, v) # items)"
    using assms(2) by (simp add: valid_record_def first_word_and_vec_eq)
  have tw: "takeWhile ?P ?b = before"
    using ok bad by (simp add: takeWhile_append2)
  have dw: "dropWhile ?P ?b = ((w, v) # items) # after"
    using ok bad by (simp add: dropWhile_append2)
  have err: "record_error ((w, v) # items) = ConversionError"
    by (simp add: record_error_def first_word_and_vec_eq)
  show "fst (insert_words_into_db inst n ?b s) = Inl ConversionError"
    using insert_words_result [OF assms(1), of inst ?b] by (simp only: dw list.case err)
  show "lookup_table (snd (insert_words_into_db inst n ?b s)) n =
          Some (t\<lparr>rows := rows t @ map hd before\<rparr>)"
    using insert_words_table [OF assms(1), of inst ?b] by (simp only: tw)
  show "(w, v) \<notin> set (map hd before)"
  proof
    assume "(w, v) \<in> set (map hd before)"
    then obtain i where i: "i \<in> set before" and hd: "hd i = (w, v)" by auto
    from ok i have "?P i" by blast
    then have "length (snd (hd i)) = 384"
      using assms(2) by (auto simp: valid_record_def first_word_and_vec_eq split: if_splits)
    with hd h show False by simp
  qed
qed

text \<open>
  Claim C2, witness: the batch \<open>[sun, comet, rocket]\<close> on the new table stores the row
  of \<open>sun\<close>, of length 384, and nothing else; the batch \<open>[sun, rocket]\<close> stores rows of
  length 384.
\<close>

theorem insert_dimension_invariant_witness:
  "lookup_table fresh_db ''embeddings_table'' = Some empty_vector_table
   \<and> dim empty_vector_table = 384
   \<and> list_all (valid_record 384) [sun_record]
   \<and> length [1, 2, 3 :: real] \<noteq> 384
   \<and> fst (insert_words_into_db ''include/astronomy.db'' ''embeddings_table''
            [sun_record, comet_record, rocket_record] fresh_db) = Inl ConversionError
   \<and> lookup_table (snd (insert_words_into_db ''include/astronomy.db'' ''embeddings_table''
                          [sun_record, comet_record, rocket_record] fresh_db)) ''embeddings_table''
       = Some (empty_vector_table\<lparr>rows := [(''sun'', pad [1, 0])]\<rparr>)
   \<and> length (pad [1, 0]) = 384
   \<and> (\<exists>new. lookup_table
                (snd (insert_words_into_db ''include/astronomy.db'' ''embeddings_table''
                        [sun_record, rocket_record] fresh_db)) ''embeddings_table'' =
                Some (empty_vector_table\<lparr>rows := rows empty_vector_table @ new\<rparr>)
             \<and> (\<forall>r \<in> set new. length (snd r) = 384))"
proof -
  have h1: "lookup_table fresh_db ''embeddings_table'' = Some empty_vector_table"
    by (simp add: fresh_db_eq lookup_table_def)
  have h2: "dim empty_vector_table = 384" by (simp add: empty_vector_table_def)
  have h3: "list_all (valid_record 384) [sun_record]"
    by (simp add: valid_record_def first_word_and_vec_eq sun_record_def length_pad)
  have h4: "length [1, 2, 3 :: real] \<noteq> 384" by simp
  have h5: "length (pad [1, 0]) = 384" by (simp add: length_pad)
  have r: "rows empty_vector_table = []" "hd sun_record = (''sun'', pad [1, 0])"
    by (simp_all add: empty_vector_table_def sun_record_def)
  note c = insert_dimension_invariant [OF h1 h2, where inst = "''include/astronomy.db''"
      and before = "[sun_record]" and w = "''comet''" and v = "[1, 2, 3]" and items = "[]"
      and after = "[rocket_record]" and batch = "[sun_record, rocket_record]"]
  from c have stored: "\<exists>new. lookup_table
                (snd (insert_words_into_db ''include/astronomy.db'' ''embeddings_table''
                        [sun_record, rocket_record] fresh_db)) ''embeddings_table'' =
                Some (empty_vector_table\<lparr>rows := rows empty_vector_table @ new\<rparr>)
             \<and> (\<forall>r \<in> set new. length (snd r) = 384)"
    by (rule conjunct1)
  from c h3 h4 have
    "fst (insert_words_into_db ''include/astronomy.db'' ''embeddings_table''
            ([sun_record] @ [(''comet'', [1, 2, 3])] # [rocket_record]) fresh_db) = Inl ConversionError
     \<and> lookup_table (snd (insert_words_into_db ''include/astronomy.db'' ''embeddings_table''
            ([sun_record] @ [(''comet'', [1, 2, 3])] # [rocket_record]) fresh_db)) ''embeddings_table''
       = Some (empty_vector_table\<lparr>rows := rows empty_vector_table @ map hd [sun_record]\<rparr>)"
    by blast
  then have failed:
    "fst (insert_words_into_db ''include/astronomy.db'' ''embeddings_table''
            [sun_record, comet_record, rocket_record] fresh_db) = Inl ConversionError"
    "lookup_table (snd (insert_words_into_db ''include/astronomy.db'' ''embeddings_table''
            [sun_record, comet_record, rocket_record] fresh_db)) ''embeddings_table''
       = Some (empty_vector_table\<lparr>rows := [(''sun'', pad [1, 0])]\<rparr>)"
    by (simp_all add: comet_record_def r)
  from h1 h2 h3 h4 failed h5 stored show ?thesis by (intro conjI)
qed

subsection \<open>A batch that fails (C3)\<close>

text \<open>
  Claim C3, as stated, lets no row of a failed batch be visible. In the batch
  \<open>[sun, comet]\<close> the second record fails, the call fails, and the row of \<open>sun\<close> is in
  the table.
\<close>

theorem partial_batch_counterexample:
  "map_option rows (lookup_table fresh_db ''embeddings_table'') = Some []
   \<and> \<not> valid_record 384 comet_record
   \<and> fst (insert_words_into_db ''include/astronomy.db'' ''embeddings_table''
            [sun_record, comet_record] fresh_db) = Inl ConversionError
   \<and> map_option rows
        (lookup_table (snd (insert_words_into_db ''include/astronomy.db'' ''embeddings_table''
                               [sun_record, comet_record] fresh_db)) ''embeddings_table'')
       = Some [(''sun'', pad [1, 0])]"
proof -
  have h1: "lookup_table fresh_db ''embeddings_table'' = Some empty_vector_table"
    by (simp add: fresh_db_eq lookup_table_def)
  have v: "valid_record 384 sun_record" "\<not> valid_record 384 comet_record"
    by (simp_all add: valid_record_def first_word_and_vec_eq sun_record_def comet_record_def
          length_pad)
  have e: "record_error comet_record = ConversionError"
    by (simp add: record_error_def first_word_and_vec_eq comet_record_def)
  show ?thesis
    using insert_words_result [OF h1, of "''include/astronomy.db''" "[sun_record, comet_record]"]
      insert_words_table [OF h1, of "''include/astronomy.db''" "[sun_record, comet_record]"]
      h1 v e
    by (simp add: empty_vector_table_def sun_record_def)
qed

text \<open>
  Claim C3, amended: \<^verbatim>\<open>insert_words_into_db\<close> stops at the first record that does not
  pass and fails with the error of that record. The rows of the records before it are in
  the table, in the order of the batch; no row of that record or of a later one is.
\<close>

theorem insert_words_prefix_committed:
  assumes "lookup_table s n = Some t"
  shows "lookup_table (snd (insert_words_into_db inst n batch s)) n =
           Some (t\<lparr>rows := rows t @ map hd (takeWhile (valid_record (dim t)) batch)\<rparr>)
         \<and> fst (insert_words_into_db inst n batch s) =
             (case dropWhile (valid_record (dim t)) batch of
                [] \<Rightarrow> Inr ()
              | i # _ \<Rightarrow> Inl (record_error i))"
  using insert_words_table [OF assms] insert_words_result [OF assms] by (rule conjI)

text \<open>Claim C3, witness: the batch \<open>[sun, comet, rocket]\<close> on the new table.\<close>

theorem insert_words_prefix_committed_witness:
  "lookup_table fresh_db ''embeddings_table'' = Some empty_vector_table
   \<and> lookup_table (snd (insert_words_into_db ''include/astronomy.db'' ''embeddings_table''
                          [sun_record, comet_record, rocket_record] fresh_db)) ''embeddings_table''
       = Some (empty_vector_table\<lparr>rows := [(''sun'', pad [1, 0])]\<rparr>)
   \<and> fst (insert_words_into_db ''include/astronomy.db'' ''embeddings_table''
            [sun_record, comet_record, rocket_record] fresh_db) = Inl ConversionError"
proof -
  have h1: "lookup_table fresh_db ''embeddings_table'' = Some empty_vector_table"
    by (simp add: fresh_db_eq lookup_table_def)
  have v: "valid_record (dim empty_vector_table) sun_record"
      "\<not> valid_record (dim empty_vector_table) comet_record"
    by (simp_all add: valid_record_def first_word_and_vec_eq sun_record_def comet_record_def
          length_pad empty_vector_table_def)
  have e: "record_error comet_record = ConversionError"
    by (simp add: record_error_def first_word_and_vec_eq comet_record_def)
  have r: "rows empty_vector_table = []" "hd sun_record = (''sun'', pad [1, 0])"
    by (simp_all add: empty_vector_table_def sun_record_def)
  from insert_words_prefix_committed [OF h1, of "''include/astronomy.db''"
         "[sun_record, comet_record, rocket_record]"]
  show ?thesis using h1 v e r by simp
qed

subsection \<open>Creating the table again (C4)\<close>

text \<open>
  Claim C4: whatever the table holds, \<^verbatim>\<open>create_vector_table\<close> succeeds and leaves it
  empty, with its index, and so does a second call right after the first. The
  hypothesis keeps the index name free in the rest of the schema: no other table holds
  an index called \<^verbatim>\<open>my_hnsw_index\<close>.
\<close>

theorem create_vector_table_replaces:
  assumes "index_name_reserved s"
  shows "fst (create_vector_table inst n s) = Inr ()
         \<and> lookup_table (snd (create_vector_table inst n s)) ''embeddings_table'' =
             Some empty_vector_table
         \<and> fst (create_vector_table inst n (snd (create_vector_table inst n s))) = Inr ()
         \<and> lookup_table (snd (create_vector_table inst n (snd (create_vector_table inst n s))))
               ''embeddings_table'' = Some empty_vector_table"
proof -
  let ?s1 = "snd (create_vector_table inst n s)"
  have r1: "index_name_reserved ?s1"
    using assms by (rule create_vector_table_reserved)
  have "fst (create_vector_table inst n s) = Inr ()"
    using assms by (simp add: create_vector_table_ok)
  moreover have "lookup_table ?s1 ''embeddings_table'' = Some empty_vector_table"
    using assms by (rule create_vector_table_table)
  moreover have "fst (create_vector_table inst n ?s1) = Inr ()"
    using r1 by (simp only: create_vector_table_ok fst_conv)
  moreover have "lookup_table (snd (create_vector_table inst n ?s1)) ''embeddings_table'' =
                   Some empty_vector_table"
    using r1 by (rule create_vector_table_table)
  ultimately show ?thesis by (intro conjI)
qed

text \<open>Claim C4, witness: the scenario database, whose table has three rows.\<close>

theorem create_vector_table_replaces_witness:
  "index_name_reserved scenario_db
   \<and> map_option (\<lambda>t. length (rows t)) (lookup_table scenario_db ''embeddings_table'') = Some 3
   \<and> fst (create_vector_table ''include/astronomy.db'' ''embeddings_table'' scenario_db) = Inr ()
   \<and> lookup_table
        (snd (create_vector_table ''include/astronomy.db'' ''embeddings_table'' scenario_db))
        ''embeddings_table'' = Some \<lparr>dim = 384, rows = [], indexes = [''my_hnsw_index'']\<rparr>"
proof -
  have three: "map_option (\<lambda>t. length (rows t)) (lookup_table scenario_db ''embeddings_table'')
                 = Some 3"
    by (simp add: scenario_db_eq lookup_table_def)
  from create_vector_table_replaces [OF index_name_reserved_scenario,
         of "''include/astronomy.db''" "''embeddings_table''"]
  show ?thesis
    using index_name_reserved_scenario three by (simp add: empty_vector_table_def)
qed

subsection \<open>The shape of the result (C5)\<close>

text \<open>
  Claim C5, as stated, has every returned entry carry a text and a distance. The SELECT
  list is \<^verbatim>\<open>text\<close> alone: no entry returned on the scenario is such a pair.
\<close>

theorem result_shape_counterexample:
  "fst (find_closest_word_match ''include/astronomy.db'' ''embeddings_table''
          query_record scenario_db) =
     Inr [[Varchar ''sun''], [Varchar ''planet''], [Varchar ''rocket'']]
   \<and> \<not> list_ex is_text_distance_pair
          [[Varchar ''sun''], [Varchar ''planet''], [Varchar ''rocket'']]"
  by (simp add: scenario_query)

text \<open>
  Claim C5, amended: whatever \<^verbatim>\<open>find_closest_word_match\<close> returns is a sequence of at
  most three one-column tuples, each the text of a stored row; no distance is part of
  the result.
\<close>

theorem find_closest_word_match_text_only:
  assumes "fst (find_closest_word_match inst n wq s) = Inr top_3"
  shows "\<exists>t ws. lookup_table s n = Some t
           \<and> top_3 = map (\<lambda>w. [Varchar w]) ws
           \<and> length ws \<le> 3
           \<and> set ws \<subseteq> fst ` set (rows t)
           \<and> \<not> list_ex is_text_distance_pair top_3"
proof -
  from assms obtain t where t: "lookup_table s n = Some t"
    and res: "top_3 = map (\<lambda>r. [Varchar (fst r)])
                (take 3 (sort_key (\<lambda>r. array_distance (snd r) (snd (hd wq))) (rows t)))"
    by (auto simp: find_closest_fst split: if_splits option.splits)
  let ?ws = "map fst (take 3 (sort_key (\<lambda>r. array_distance (snd r) (snd (hd wq))) (rows t)))"
  have "top_3 = map (\<lambda>w. [Varchar w]) ?ws" by (simp add: res comp_def)
  moreover have "length ?ws \<le> 3" by simp
  moreover have "set ?ws \<subseteq> fst ` set (rows t)"
    using set_take_subset [of 3 "sort_key (\<lambda>r. array_distance (snd r) (snd (hd wq))) (rows t)"]
    by auto
  moreover have "\<not> list_ex is_text_distance_pair top_3"
    by (simp add: res list_ex_iff)
  ultimately show ?thesis using t by blast
qed

text \<open>Claim C5, witness: the result on the scenario.\<close>

theorem find_closest_word_match_text_only_witness:
  "fst (find_closest_word_match ''include/astronomy.db'' ''embeddings_table''
          query_record scenario_db) =
     Inr [[Varchar ''sun''], [Varchar ''planet''], [Varchar ''rocket'']]
   \<and> (\<exists>t ws. lookup_table scenario_db ''embeddings_table'' = Some t
           \<and> [[Varchar ''sun''], [Varchar ''planet''], [Varchar ''rocket'']] =
               map (\<lambda>w. [Varchar w]) ws
           \<and> length ws \<le> 3
           \<and> set ws \<subseteq> fst ` set (rows t)
           \<and> \<not> list_ex is_text_distance_pair
                  [[Varchar ''sun''], [Varchar ''planet''], [Varchar ''rocket'']])"
  by (rule conjI [OF scenario_query find_closest_word_match_text_only [OF scenario_query]])

subsection \<open>The order of insertion (C6)\<close>




subsection \<open>The empty table (C7)\<close>

text \<open>
  Claim C7: with a query vector of length 384, \<^verbatim>\<open>find_closest_word_match\<close> on the
  table that \<^verbatim>\<open>create_vector_table\<close> has just made returns the empty sequence, and so
  it does on every table of dimension 384 that has no rows.
\<close>

theorem empty_table_query:
  assumes "first_word_and_vec wq = Inr (w, q)" and "length q = 384"
  shows "fst (find_closest_word_match inst' ''embeddings_table'' wq
                (snd (create_vector_table inst n s))) = Inr []
         \<and> (\<forall>s' m t. lookup_table s' m = Some t \<and> dim t = 384 \<and> rows t = []
               \<longrightarrow> fst (find_closest_word_match inst' m wq s') = Inr [])"
proof -
  from assms(1) have wq: "wq \<noteq> []" "snd (hd wq) = q"
    by (auto simp: first_word_and_vec_eq split: if_splits)
  have gen: "fst (find_closest_word_match inst' m wq s') = Inr []"
    if "lookup_table s' m = Some t" "dim t = 384" "rows t = []" for s' m t
    using that wq assms(2) by (simp add: find_closest_fst)
  obtain t where t: "lookup_table (snd (create_vector_table inst n s)) ''embeddings_table'' = Some t"
    and r: "rows t = []"
    using create_vector_table_rows [of inst n s] by auto
  have d: "dim t = 384"
    using create_vector_table_dim [of inst n s] t by simp
  from gen [OF t d r] gen show ?thesis by blast
qed

text \<open>Claim C7, witness: the scenario database, created anew and queried.\<close>

theorem empty_table_query_witness:
  "first_word_and_vec query_record = Inr (''star'', pad [1, 0])
   \<and> length (pad [1, 0]) = 384
   \<and> fst (find_closest_word_match ''include/astronomy.db'' ''embeddings_table'' query_record
            (snd (create_vector_table ''include/astronomy.db'' ''embeddings_table'' scenario_db)))
       = Inr []"
proof -
  have h1: "first_word_and_vec query_record = Inr (''star'', pad [1, 0])"
    by (simp add: query_record_def first_word_and_vec_def)
  have h2: "length (pad [1, 0]) = 384" by (simp add: length_pad)
  from empty_table_query [OF h1 h2] h1 h2 show ?thesis by blast
qed

subsection \<open>The connection (C8)\<close>

text \<open>
  Claim C8 has the connection released on every exit path. The source closes the
  cursor as the last statement of \<^verbatim>\<open>create_vector_table\<close> and
  \<^verbatim>\<open>insert_words_into_db\<close> only: a query that succeeds leaves one handle open, and so
  does an insertion that fails.
\<close>

theorem handle_left_open:
  "handles scenario_db = 0
   \<and> fst (find_closest_word_match ''include/astronomy.db'' ''embeddings_table''
            query_record scenario_db) =
       Inr [[Varchar ''sun''], [Varchar ''planet''], [Varchar ''rocket'']]
   \<and> handles (snd (find_closest_word_match ''include/astronomy.db'' ''embeddings_table''
                      query_record scenario_db)) = 1
   \<and> handles fresh_db = 0
   \<and> fst (insert_words_into_db ''include/astronomy.db'' ''embeddings_table''
            [comet_record] fresh_db) = Inl ConversionError
   \<and> handles (snd (insert_words_into_db ''include/astronomy.db'' ''embeddings_table''
                      [comet_record] fresh_db)) = 1"
proof -
  have h1: "lookup_table fresh_db ''embeddings_table'' = Some empty_vector_table"
    by (simp add: fresh_db_eq lookup_table_def)
  have v: "\<not> valid_record (dim empty_vector_table) comet_record"
    by (simp add: valid_record_def first_word_and_vec_eq comet_record_def empty_vector_table_def)
  have e: "record_error comet_record = ConversionError"
    by (simp add: record_error_def first_word_and_vec_eq comet_record_def)
  have f: "fst (insert_words_into_db ''include/astronomy.db'' ''embeddings_table''
            [comet_record] fresh_db) = Inl ConversionError"
    using insert_words_result [OF h1, of "''include/astronomy.db''" "[comet_record]"] v e by simp
  have z: "handles scenario_db = 0" "handles fresh_db = 0"
    by (simp_all add: scenario_db_eq fresh_db_eq)
  show ?thesis
    using f z scenario_query by (simp add: find_closest_handles insert_words_handles)
qed

subsection \<open>The table name (C9)\<close>

text \<open>
  Claim C9: \<^verbatim>\<open>create_vector_table\<close> does the same for every \<^verbatim>\<open>table_name\<close>: the table
  it makes (empty) is \<^verbatim>\<open>embeddings_table\<close>, and a table of the name it was given,
  when that is another name, is as it was.
\<close>

theorem create_vector_table_ignores_name:
  "create_vector_table inst n s = create_vector_table inst n' s
   \<and> map_option rows (lookup_table (snd (create_vector_table inst n s)) ''embeddings_table'')
       = Some []
   \<and> (n \<noteq> ''embeddings_table'' \<longrightarrow>
        lookup_table (snd (create_vector_table inst n s)) n = lookup_table s n)"
  by (simp add: create_vector_table_rows create_vector_table_other)
     (simp add: create_vector_table_def)

text \<open>Claim C9, witness: the name \<^verbatim>\<open>my_table\<close> on the empty database.\<close>

theorem create_vector_table_ignores_name_witness:
  "''my_table'' \<noteq> ''embeddings_table''
   \<and> create_vector_table ''include/astronomy.db'' ''my_table'' empty_db =
       create_vector_table ''include/astronomy.db'' ''embeddings_table'' empty_db
   \<and> lookup_table (snd (create_vector_table ''include/astronomy.db'' ''my_table'' empty_db))
        ''my_table'' = None
   \<and> map_option rows
        (lookup_table (snd (create_vector_table ''include/astronomy.db'' ''my_table'' empty_db))
           ''embeddings_table'') = Some []"
proof -
  have ne: "''my_table'' \<noteq> ''embeddings_table''" by simp
  have none: "lookup_table empty_db ''my_table'' = None"
    by (simp add: lookup_table_def empty_db_def)
  note c = create_vector_table_ignores_name
          [of "''include/astronomy.db''" "''my_table''" empty_db "''embeddings_table''"]
  from c have c1: "create_vector_table ''include/astronomy.db'' ''my_table'' empty_db =
       create_vector_table ''include/astronomy.db'' ''embeddings_table'' empty_db"
    by (rule conjunct1)
  from c have c2: "map_option rows
        (lookup_table (snd (create_vector_table ''include/astronomy.db'' ''my_table'' empty_db))
           ''embeddings_table'') = Some []"
    by (elim conjE)
  from c ne have c3: "lookup_table
        (snd (create_vector_table ''include/astronomy.db'' ''my_table'' empty_db)) ''my_table'' =
        lookup_table empty_db ''my_table''"
    by (elim conjE impE)
  from ne c1 c2 c3 [unfolded none] show ?thesis by (intro conjI)
qed

subsection \<open>The size of the result (C10)\<close>

text \<open>
  Claim C10: a result of \<^verbatim>\<open>find_closest_word_match\<close> has \<open>min 3 n\<close> entries, \<open>n\<close> the
  number of rows of the table; and on a table of dimension 384 with a query vector of
  length 384 there is a result.
\<close>

theorem find_closest_word_match_at_most_3:
  "(fst (find_closest_word_match inst n wq s) = Inr top_3 \<longrightarrow>
      (\<exists>t. lookup_table s n = Some t \<and> length top_3 = min 3 (length (rows t))))
   \<and> (lookup_table s n = Some t \<and> dim t = 384
        \<and> first_word_and_vec wq = Inr (w, q) \<and> length q = 384 \<longrightarrow>
      (\<exists>res. fst (find_closest_word_match inst n wq s) = Inr res
             \<and> length res = min 3 (length (rows t))))"
  by (auto simp: find_closest_fst first_word_and_vec_eq min.commute split: if_splits option.splits)

text \<open>Claim C10, witness: three entries from the three rows of the scenario.\<close>

theorem find_closest_word_match_at_most_3_witness:
  "fst (find_closest_word_match ''include/astronomy.db'' ''embeddings_table''
          query_record scenario_db) =
     Inr [[Varchar ''sun''], [Varchar ''planet''], [Varchar ''rocket'']]
   \<and> (\<exists>t. lookup_table scenario_db ''embeddings_table'' = Some t
          \<and> length [[Varchar ''sun''], [Varchar ''planet''], [Varchar ''rocket'']] =
              min 3 (length (rows t)))"
  using find_closest_word_match_at_most_3
          [of "''include/astronomy.db''" "''embeddings_table''" query_record scenario_db
              "[[Varchar ''sun''], [Varchar ''planet''], [Varchar ''rocket'']]"]
        scenario_query
  by blast

end
